theory Spec2Isabelle
  imports Complex_Main "HOL-Library.AList" "HOL-Library.Multiset"
begin

section \<open>Distributed task scheduling core: shallow embedding\<close>

text \<open>
  The three classes of the distributed module are embedded as records with explicit
  state passing: \<open>ComputeNode\<close> (compute-node.ts), \<open>TaskScheduler\<close> (task-scheduler.ts)
  and \<open>Communication\<close> (communication.ts).

  Conventions of the embedding.
  \<^item> A JavaScript \<open>Map\<close> is an association list with distinct keys in insertion order:
    \<open>Map.set\<close> is \<open>AList.update\<close> (an existing key keeps its position, a new key is
    appended), \<open>Map.delete\<close> is \<open>AList.delete\<close>, \<open>Map.get\<close> is \<open>map_of\<close>, \<open>Map.size\<close> is
    \<open>length\<close>.
  \<^item> Integral JavaScript numbers (priorities, millisecond time stamps, retry limits) are
    \<open>int\<close>; counters are \<open>nat\<close>. The node load is a quotient \<open>k / 4\<close>, which binary
    floating point represents exactly, so it is a \<open>rat\<close>. A task's priority is an integer
    (the task data model says so); \<open>task.priority--\<close> is the one place where the code
    computes a new priority, and there the rounding of the 64-bit floating point result is
    written out (\<open>js_decrement\<close>).
  \<^item> A capability array is a mutable object that may be shared, so it lives in an explicit
    store addressed by a reference; everything else is passed and returned by value.
  \<^item> \<open>Date.now()\<close>, \<open>Math.random()\<close> and generated message ids are inputs of the
    operation that reads them.
  \<^item> An \<open>async\<close> method is split where it awaits: the part that runs at the call, and the
    continuation that runs when the awaited promise settles, which takes the settled value
    (\<open>Inr\<close> a result, \<open>Inl\<close> an error) as an argument.
  \<^item> Field names shared by several source types carry a prefix or suffix (\<open>info_id\<close>,
    \<open>task_id\<close>, \<open>msg_id\<close>; \<open>peer_status\<close>; \<open>config_c\<close>, \<open>maxRetries_c\<close> in the
    communication class).
\<close>

subsection \<open>Compute node\<close>

datatype Status = Idle | Busy | Offline

type_synonym ref = nat

type_synonym heap = "ref \<Rightarrow> string list"

record NodeInfo =
  info_id :: string
  address :: string
  port :: int
  status :: Status
  capabilities :: ref
  load :: rat

record 'p Task =
  task_id :: string
  task_type :: string
  payload :: 'p
  priority :: int
  createdAt :: int
  assignedTo :: "string option"

record 'p ComputeNode =
  info :: NodeInfo
  tasks :: "(string \<times> 'p Task) list"
  maxConcurrentTasks :: nat

datatype error = TaskNotFound string | HandlerFailed | TaskTimeout

datatype 'p TaskResult = TypedResult string 'p | SuccessResult string

definition ComputeNode_constructor :: "string \<Rightarrow> string \<Rightarrow> int \<Rightarrow> ref \<Rightarrow> 'p ComputeNode" where
  "ComputeNode_constructor i a p caps =
     \<lparr>info = \<lparr>info_id = i, address = a, port = p, status = Idle, capabilities = caps, load = 0\<rparr>,
      tasks = [], maxConcurrentTasks = 4\<rparr>"

text \<open>
  \<open>{ ...this.info }\<close> copies the fields of the info object one level deep: the scalar
  fields are copied, the \<open>capabilities\<close> field is copied as a reference to the same array.
\<close>

definition getInfo :: "'p ComputeNode \<Rightarrow> NodeInfo" where
  "getInfo n = info n"

definition setStatus :: "'p ComputeNode \<Rightarrow> Status \<Rightarrow> 'p ComputeNode" where
  "setStatus n st = n\<lparr>info := (info n)\<lparr>status := st\<rparr>\<rparr>"

definition canAcceptTask :: "'p ComputeNode \<Rightarrow> bool" where
  "canAcceptTask n \<longleftrightarrow> status (info n) \<noteq> Offline \<and> length (tasks n) < maxConcurrentTasks n"

definition updateLoad :: "'p ComputeNode \<Rightarrow> 'p ComputeNode" where
  "updateLoad n =
     n\<lparr>info := (info n)\<lparr>load := of_nat (length (tasks n)) / of_nat (maxConcurrentTasks n)\<rparr>\<rparr>"

text \<open>
  \<open>assignTask\<close> writes \<open>assignedTo\<close> into the task object it is given, so the model returns
  the task as well as the node.
\<close>

definition assignTask :: "'p ComputeNode \<Rightarrow> 'p Task \<Rightarrow> bool \<times> 'p ComputeNode \<times> 'p Task" where
  "assignTask n task =
     (if \<not> canAcceptTask n then (False, n, task)
      else
        let task' = task\<lparr>assignedTo := Some (info_id (info n))\<rparr>;
            n1 = n\<lparr>tasks := AList.update (task_id task') task' (tasks n)\<rparr>;
            n2 = updateLoad n1;
            n3 = (if length (tasks n2) > 0 then n2\<lparr>info := (info n2)\<lparr>status := Busy\<rparr>\<rparr> else n2)
        in (True, n3, task'))"

definition processTask :: "'p Task \<Rightarrow> 'p TaskResult" where
  "processTask task =
     (if task_type task = ''inference'' then TypedResult ''inference'' (payload task)
      else if task_type task = ''training'' then TypedResult ''training'' (payload task)
      else if task_type task = ''data_processing'' then TypedResult ''data_processing'' (payload task)
      else SuccessResult (task_id task))"

text \<open>
  The continuation of \<open>executeTask\<close> after \<open>await this.processTask(task)\<close>: the \<open>try\<close>
  block continues on a result, the \<open>catch\<close> block on an error and rethrows it.
\<close>

definition executeTask_settle ::
  "'p ComputeNode \<Rightarrow> string \<Rightarrow> error + 'p TaskResult \<Rightarrow> 'p ComputeNode \<times> (error + 'p TaskResult)" where
  "executeTask_settle n taskId settled =
     (case settled of
        Inr result \<Rightarrow>
          let n1 = n\<lparr>tasks := AList.delete taskId (tasks n)\<rparr>;
              n2 = updateLoad n1;
              n3 = (if length (tasks n2) = 0 then n2\<lparr>info := (info n2)\<lparr>status := Idle\<rparr>\<rparr> else n2)
          in (n3, Inr result)
      | Inl e \<Rightarrow>
          let n1 = n\<lparr>tasks := AList.delete taskId (tasks n)\<rparr>;
              n2 = updateLoad n1
          in (n2, Inl e))"

text \<open>
  \<open>executeTask\<close> with nothing interleaved between the call and the settlement. The handler
  is the argument \<open>handler\<close>; the source's own handler is \<open>\<lambda>task. Inr (processTask task)\<close>.
\<close>

definition executeTask ::
  "('p Task \<Rightarrow> error + 'p TaskResult) \<Rightarrow> 'p ComputeNode \<Rightarrow> string
     \<Rightarrow> 'p ComputeNode \<times> (error + 'p TaskResult)" where
  "executeTask handler n taskId =
     (case map_of (tasks n) taskId of
        None \<Rightarrow> (n, Inl (TaskNotFound taskId))
      | Some task \<Rightarrow> executeTask_settle n taskId (handler task))"

definition getTasks :: "'p ComputeNode \<Rightarrow> 'p Task list" where
  "getTasks n = map snd (tasks n)"

definition getTaskCount :: "'p ComputeNode \<Rightarrow> nat" where
  "getTaskCount n = length (tasks n)"

definition getLoad :: "'p ComputeNode \<Rightarrow> rat" where
  "getLoad n = load (info n)"

definition hasCapability :: "heap \<Rightarrow> 'p ComputeNode \<Rightarrow> string \<Rightarrow> bool" where
  "hasCapability h n c \<longleftrightarrow> c \<in> set (h (capabilities (info n)))"

definition array_push :: "heap \<Rightarrow> ref \<Rightarrow> string \<Rightarrow> heap" where
  "array_push h r c = h(r := h r @ [c])"

definition addCapability :: "heap \<Rightarrow> 'p ComputeNode \<Rightarrow> string \<Rightarrow> heap" where
  "addCapability h n c =
     (if \<not> hasCapability h n c then array_push h (capabilities (info n)) c else h)"

definition removeCapability :: "heap \<Rightarrow> 'p ComputeNode \<Rightarrow> string \<Rightarrow> heap" where
  "removeCapability h n c = h(capabilities (info n) := remove1 c (h (capabilities (info n))))"

definition createComputeNode ::
  "string \<Rightarrow> string option \<Rightarrow> int option \<Rightarrow> ref \<Rightarrow> 'p ComputeNode" where
  "createComputeNode i a p caps =
     ComputeNode_constructor i (case a of None \<Rightarrow> ''localhost'' | Some x \<Rightarrow> x)
       (case p of None \<Rightarrow> 8080 | Some x \<Rightarrow> x) caps"

text \<open>
  The operations a holder of a node can perform on it, and a node's history as a sequence
  of them. \<open>OpSettle\<close> is the settlement of an execution that was started earlier, with
  other operations in between.
\<close>

datatype 'p node_op =
    OpAssign "'p Task"
  | OpExecute "'p Task \<Rightarrow> error + 'p TaskResult" string
  | OpSettle string "error + 'p TaskResult"
  | OpSetStatus Status

fun node_step :: "'p ComputeNode \<Rightarrow> 'p node_op \<Rightarrow> 'p ComputeNode" where
  "node_step n (OpAssign task) = fst (snd (assignTask n task))"
| "node_step n (OpExecute handler taskId) = fst (executeTask handler n taskId)"
| "node_step n (OpSettle taskId settled) = fst (executeTask_settle n taskId settled)"
| "node_step n (OpSetStatus st) = setStatus n st"

definition node_run :: "'p ComputeNode \<Rightarrow> 'p node_op list \<Rightarrow> 'p ComputeNode" where
  "node_run n ops = foldl node_step n ops"

subsection \<open>Inter-node communication\<close>

datatype MessageType = Request | Response | Broadcast | Heartbeat

datatype Recipient = To string | ToMany "string list"

datatype 'p MsgPayload = Data 'p | StatusAlive

record 'p Message =
  msg_id :: string
  msg_type :: MessageType
  msg_from :: string
  msg_to :: Recipient
  msg_payload :: "'p MsgPayload"
  timestamp :: int

record CommunicationConfig =
  heartbeatInterval :: int
  messageTimeout :: int
  maxRetries_c :: int

record PartialCommunicationConfig =
  heartbeatInterval_opt :: "int option"
  messageTimeout_opt :: "int option"
  maxRetries_c_opt :: "int option"

datatype PeerStatus = PeerOnline | PeerOffline

record Peer =
  lastSeen :: int
  peer_status :: PeerStatus

text \<open>
  A message handler is a callback of the caller, which the class stores and calls with the
  message object. The model keeps of a handler what \<open>handleMessage\<close> depends on: whether
  the call on a given message throws or returns, and the message as the call leaves it (a
  callback may assign to the fields of the object it is given). What else a callback does
  is outside the model.
\<close>

datatype 'p call_result = Returned "'p Message" | Threw

record 'p Communication =
  nodeId :: string
  peers :: "(string \<times> Peer) list"
  messageHandlers :: "(MessageType \<times> ('p Message \<Rightarrow> 'p call_result)) list"
  pendingMessages :: "(string \<times> 'p Message) list"
  config_c :: CommunicationConfig
  heartbeatTimer :: "nat option"

text \<open>
  The interval timers of the JavaScript runtime: the handles that are still scheduled, and
  the next fresh handle. A handle is an object (or a positive number), always truthy.
\<close>

record Timers =
  active :: "nat list"
  fresh :: nat

definition setInterval :: "Timers \<Rightarrow> nat \<times> Timers" where
  "setInterval tm = (fresh tm, tm\<lparr>active := active tm @ [fresh tm], fresh := Suc (fresh tm)\<rparr>)"

definition clearInterval :: "nat \<Rightarrow> Timers \<Rightarrow> Timers" where
  "clearInterval i tm = tm\<lparr>active := removeAll i (active tm)\<rparr>"

text \<open>\<open>x || d\<close> on an optional number: \<open>undefined\<close> and \<open>0\<close> are falsy.\<close>

definition or_default :: "int option \<Rightarrow> int \<Rightarrow> int" where
  "or_default x d = (case x of None \<Rightarrow> d | Some v \<Rightarrow> if v = 0 then d else v)"

definition Communication_constructor :: "string \<Rightarrow> PartialCommunicationConfig \<Rightarrow> 'p Communication" where
  "Communication_constructor nid cfg =
     \<lparr>nodeId = nid, peers = [], messageHandlers = [], pendingMessages = [],
      config_c = \<lparr>heartbeatInterval = or_default (heartbeatInterval_opt cfg) 5000,
                  messageTimeout = or_default (messageTimeout_opt cfg) 10000,
                  maxRetries_c = or_default (maxRetries_c_opt cfg) 3\<rparr>,
      heartbeatTimer = None\<rparr>"

definition createCommunication :: "string \<Rightarrow> PartialCommunicationConfig \<Rightarrow> 'p Communication" where
  "createCommunication nid cfg = Communication_constructor nid cfg"

definition startHeartbeat :: "Timers \<times> 'p Communication \<Rightarrow> Timers \<times> 'p Communication" where
  "startHeartbeat w =
     (case w of (tm, c) \<Rightarrow>
        (case setInterval tm of (i, tm') \<Rightarrow> (tm', c\<lparr>heartbeatTimer := Some i\<rparr>)))"

definition start :: "Timers \<times> 'p Communication \<Rightarrow> Timers \<times> 'p Communication" where
  "start w = startHeartbeat w"

definition stop :: "Timers \<times> 'p Communication \<Rightarrow> Timers \<times> 'p Communication" where
  "stop w =
     (case w of (tm, c) \<Rightarrow>
        (case heartbeatTimer c of
           Some i \<Rightarrow> (clearInterval i tm, c\<lparr>heartbeatTimer := None\<rparr>)
         | None \<Rightarrow> (tm, c)))"

text \<open>
  \<open>send\<close> and \<open>broadcast\<close> up to their \<open>await\<close>: the message is built and, by \<open>send\<close>,
  tracked as pending. \<open>transmit\<close> is the completion of the simulated transmission, which
  clears the pending entry; it is an event of its own (\<open>EvTransmitted\<close> below).
\<close>

definition send ::
  "'p Communication \<Rightarrow> int \<Rightarrow> string \<Rightarrow> Recipient \<Rightarrow> 'p MsgPayload \<Rightarrow> MessageType
     \<Rightarrow> 'p Communication \<times> 'p Message" where
  "send c now mid recipient p ty =
     (let message = \<lparr>msg_id = mid, msg_type = ty, msg_from = nodeId c, msg_to = recipient,
                     msg_payload = p, timestamp = now\<rparr>
      in (c\<lparr>pendingMessages := AList.update mid message (pendingMessages c)\<rparr>, message))"

definition transmit :: "'p Communication \<Rightarrow> string \<Rightarrow> 'p Communication" where
  "transmit c mid = c\<lparr>pendingMessages := AList.delete mid (pendingMessages c)\<rparr>"

definition broadcast :: "'p Communication \<Rightarrow> int \<Rightarrow> string \<Rightarrow> 'p MsgPayload \<Rightarrow> 'p Communication \<times> 'p Message" where
  "broadcast c now mid p =
     (let message = \<lparr>msg_id = mid, msg_type = Broadcast, msg_from = nodeId c,
                     msg_to = ToMany (map fst (peers c)), msg_payload = p, timestamp = now\<rparr>
      in (c, message))"

definition onMessage ::
  "'p Communication \<Rightarrow> MessageType \<Rightarrow> ('p Message \<Rightarrow> 'p call_result) \<Rightarrow> 'p Communication" where
  "onMessage c ty handler = c\<lparr>messageHandlers := AList.update ty handler (messageHandlers c)\<rparr>"

definition registerPeer :: "'p Communication \<Rightarrow> int \<Rightarrow> string \<Rightarrow> 'p Communication" where
  "registerPeer c now peerId =
     c\<lparr>peers := AList.update peerId \<lparr>lastSeen = now, peer_status = PeerOnline\<rparr> (peers c)\<rparr>"

definition unregisterPeer :: "'p Communication \<Rightarrow> string \<Rightarrow> 'p Communication \<times> bool" where
  "unregisterPeer c peerId =
     (c\<lparr>peers := AList.delete peerId (peers c)\<rparr>, peerId \<in> set (map fst (peers c)))"

definition updatePeer :: "'p Communication \<Rightarrow> int \<Rightarrow> string \<Rightarrow> 'p Communication" where
  "updatePeer c now peerId =
     (case map_of (peers c) peerId of
        Some peer \<Rightarrow>
          c\<lparr>peers := AList.update peerId (peer\<lparr>lastSeen := now, peer_status := PeerOnline\<rparr>) (peers c)\<rparr>
      | None \<Rightarrow> registerPeer c now peerId)"

text \<open>
  The first statement of \<open>handleMessage\<close>: the handler registered for the type of the
  message, if there is one, is called.
\<close>

definition callHandler :: "'p Communication \<Rightarrow> 'p Message \<Rightarrow> 'p call_result" where
  "callHandler c message =
     (case map_of (messageHandlers c) (msg_type message) of
        None \<Rightarrow> Returned message
      | Some handler \<Rightarrow> handler message)"

text \<open>
  \<open>handleMessage\<close> calls the handler outside any \<open>try\<close>: when the handler throws, the
  method is left at once, its promise rejects and \<open>updatePeer\<close> is not reached. Otherwise the
  sender is read from the message after the call. The second component says which of the
  two happened.
\<close>

definition handleMessage ::
  "'p Communication \<Rightarrow> int \<Rightarrow> 'p Message \<Rightarrow> 'p Communication \<times> 'p call_result" where
  "handleMessage c now message =
     (case callHandler c message of
        Threw \<Rightarrow> (c, Threw)
      | Returned message' \<Rightarrow>
          (if msg_from message' \<noteq> nodeId c then updatePeer c now (msg_from message') else c,
           Returned message'))"

definition sendHeartbeat :: "'p Communication \<Rightarrow> int \<Rightarrow> string \<Rightarrow> 'p Communication" where
  "sendHeartbeat c now mid =
     (let peerIds = map fst (peers c)
      in if length peerIds > 0 then fst (send c now mid (ToMany peerIds) StatusAlive Heartbeat) else c)"

definition checkPeerStatus :: "'p Communication \<Rightarrow> int \<Rightarrow> 'p Communication" where
  "checkPeerStatus c now =
     (let timeout_ms = heartbeatInterval (config_c c) * 3
      in c\<lparr>peers := map (\<lambda>(peerId, peer).
                (peerId, if now - lastSeen peer > timeout_ms then peer\<lparr>peer_status := PeerOffline\<rparr> else peer))
              (peers c)\<rparr>)"

text \<open>The callback that \<open>startHeartbeat\<close> hands to \<open>setInterval\<close>.\<close>

definition heartbeat_callback :: "'p Communication \<Rightarrow> int \<Rightarrow> string \<Rightarrow> int \<Rightarrow> 'p Communication" where
  "heartbeat_callback c now_send mid now_check = checkPeerStatus (sendHeartbeat c now_send mid) now_check"

text \<open>\<open>getPeerStatus\<close> answers \<open>unknown\<close> for a peer that is not in the table: \<open>None\<close>.\<close>

definition getPeerStatus :: "'p Communication \<Rightarrow> string \<Rightarrow> PeerStatus option" where
  "getPeerStatus c peerId = map_option peer_status (map_of (peers c) peerId)"

definition getPeers :: "'p Communication \<Rightarrow> string list" where
  "getPeers c = map fst (peers c)"

definition getOnlinePeers :: "'p Communication \<Rightarrow> string list" where
  "getOnlinePeers c = map fst (filter (\<lambda>(peerId, peer). peer_status peer = PeerOnline) (peers c))"

text \<open>
  The history of an instance: each event carries the reading of \<open>Date.now()\<close> at which it
  happens. \<open>EvHeartbeat\<close> is one firing of the interval callback.
\<close>

datatype 'p comm_event =
    EvStart
  | EvStop
  | EvSend string Recipient "'p MsgPayload" MessageType
  | EvTransmitted string
  | EvBroadcast string "'p MsgPayload"
  | EvOnMessage MessageType "'p Message \<Rightarrow> 'p call_result"
  | EvHandleMessage "'p Message"
  | EvRegisterPeer string
  | EvUnregisterPeer string
  | EvHeartbeat string

fun comm_step :: "Timers \<times> 'p Communication \<Rightarrow> int \<times> 'p comm_event \<Rightarrow> Timers \<times> 'p Communication" where
  "comm_step w (now, EvStart) = start w"
| "comm_step w (now, EvStop) = stop w"
| "comm_step (tm, c) (now, EvSend mid recipient p ty) = (tm, fst (send c now mid recipient p ty))"
| "comm_step (tm, c) (now, EvTransmitted mid) = (tm, transmit c mid)"
| "comm_step (tm, c) (now, EvBroadcast mid p) = (tm, fst (broadcast c now mid p))"
| "comm_step (tm, c) (now, EvOnMessage ty handler) = (tm, onMessage c ty handler)"
| "comm_step (tm, c) (now, EvHandleMessage message) = (tm, fst (handleMessage c now message))"
| "comm_step (tm, c) (now, EvRegisterPeer peerId) = (tm, registerPeer c now peerId)"
| "comm_step (tm, c) (now, EvUnregisterPeer peerId) = (tm, fst (unregisterPeer c peerId))"
| "comm_step (tm, c) (now, EvHeartbeat mid) = (tm, heartbeat_callback c now mid now)"

definition comm_run ::
  "Timers \<times> 'p Communication \<Rightarrow> (int \<times> 'p comm_event) list \<Rightarrow> Timers \<times> 'p Communication" where
  "comm_run w evs = foldl comm_step w evs"

subsection \<open>Task scheduler\<close>

datatype SchedulingStrategy = RoundRobin | LeastLoaded | Random | CapabilityBased

record SchedulerConfig =
  strategy :: SchedulingStrategy
  maxRetries :: int
  timeout :: int

record PartialSchedulerConfig =
  strategy_opt :: "SchedulingStrategy option"
  maxRetries_opt :: "int option"
  timeout_opt :: "int option"

datatype 'p Outcome = Completed "'p TaskResult" | MaxRetriesExceeded

text \<open>
  The registry holds the node objects themselves, addressed by their key. \<open>randomDraws\<close> is
  the sequence of the future values of \<open>Math.random()\<close>, already scaled to naturals:
  \<open>Math.floor(Math.random() * n)\<close> is the head of the sequence modulo \<open>n\<close>.
\<close>

record 'p TaskScheduler =
  nodes :: "(string \<times> 'p ComputeNode) list"
  taskQueue :: "'p Task list"
  config :: SchedulerConfig
  nextNodeIndex :: nat
  taskResults :: "(string \<times> 'p Outcome) list"
  randomDraws :: "nat \<Rightarrow> nat"

definition TaskScheduler_constructor :: "PartialSchedulerConfig \<Rightarrow> (nat \<Rightarrow> nat) \<Rightarrow> 'p TaskScheduler" where
  "TaskScheduler_constructor cfg rnd =
     \<lparr>nodes = [], taskQueue = [],
      config = \<lparr>strategy = (case strategy_opt cfg of None \<Rightarrow> LeastLoaded | Some st \<Rightarrow> st),
                maxRetries = or_default (maxRetries_opt cfg) 3,
                timeout = or_default (timeout_opt cfg) 30000\<rparr>,
      nextNodeIndex = 0, taskResults = [], randomDraws = rnd\<rparr>"

definition createScheduler :: "PartialSchedulerConfig \<Rightarrow> (nat \<Rightarrow> nat) \<Rightarrow> 'p TaskScheduler" where
  "createScheduler cfg rnd = TaskScheduler_constructor cfg rnd"

definition createTask :: "string \<Rightarrow> string \<Rightarrow> 'p \<Rightarrow> int option \<Rightarrow> int \<Rightarrow> 'p Task" where
  "createTask i ty p prio now =
     \<lparr>task_id = i, task_type = ty, payload = p,
      priority = (case prio of None \<Rightarrow> 0 | Some x \<Rightarrow> x), createdAt = now, assignedTo = None\<rparr>"

definition registerNode :: "'p TaskScheduler \<Rightarrow> 'p ComputeNode \<Rightarrow> 'p TaskScheduler" where
  "registerNode s node = s\<lparr>nodes := AList.update (info_id (getInfo node)) node (nodes s)\<rparr>"

definition unregisterNode :: "'p TaskScheduler \<Rightarrow> string \<Rightarrow> 'p TaskScheduler \<times> bool" where
  "unregisterNode s nodeId' =
     (s\<lparr>nodes := AList.delete nodeId' (nodes s)\<rparr>, nodeId' \<in> set (map fst (nodes s)))"

text \<open>
  The selection functions take the eligible nodes as registry entries and return the
  chosen entry; \<open>None\<close> stands for \<open>null\<close> and for the \<open>undefined\<close> of an empty array.
  The strategy is one of the four values of its type, so the \<open>default\<close> branch of the
  \<open>switch\<close> in \<open>selectNode\<close> has no case here.
\<close>

definition selectRoundRobin ::
  "'p TaskScheduler \<Rightarrow> (string \<times> 'p ComputeNode) list
     \<Rightarrow> (string \<times> 'p ComputeNode) option \<times> 'p TaskScheduler" where
  "selectRoundRobin s ns =
     (let node = (if ns = [] then None else Some (ns ! (nextNodeIndex s mod length ns)))
      in (node, s\<lparr>nextNodeIndex := nextNodeIndex s + 1\<rparr>))"

definition selectLeastLoaded :: "(string \<times> 'p ComputeNode) list \<Rightarrow> (string \<times> 'p ComputeNode) option" where
  "selectLeastLoaded ns =
     (case ns of
        [] \<Rightarrow> None
      | first # rest \<Rightarrow>
          Some (foldl (\<lambda>least current.
                  if getLoad (snd current) < getLoad (snd least) then current else least) first rest))"

definition selectRandom ::
  "'p TaskScheduler \<Rightarrow> (string \<times> 'p ComputeNode) list
     \<Rightarrow> (string \<times> 'p ComputeNode) option \<times> 'p TaskScheduler" where
  "selectRandom s ns =
     (let index = randomDraws s 0 mod length ns;
          s' = s\<lparr>randomDraws := (\<lambda>k. randomDraws s (Suc k))\<rparr>
      in (if ns = [] then None else Some (ns ! index), s'))"

definition selectByCapability ::
  "heap \<Rightarrow> (string \<times> 'p ComputeNode) list \<Rightarrow> 'p Task \<Rightarrow> (string \<times> 'p ComputeNode) option" where
  "selectByCapability h ns task =
     (let capableNodes = filter (\<lambda>(k, node). hasCapability h node (task_type task)) ns
      in if length capableNodes = 0 then (if length ns > 0 then Some (hd ns) else None)
         else selectLeastLoaded capableNodes)"

definition selectNode ::
  "heap \<Rightarrow> 'p TaskScheduler \<Rightarrow> 'p Task \<Rightarrow> (string \<times> 'p ComputeNode) option \<times> 'p TaskScheduler" where
  "selectNode h s task =
     (let availableNodes = filter (\<lambda>(k, node). canAcceptTask node) (nodes s)
      in if length availableNodes = 0 then (None, s)
         else (case strategy (config s) of
                 RoundRobin \<Rightarrow> selectRoundRobin s availableNodes
               | LeastLoaded \<Rightarrow> (selectLeastLoaded availableNodes, s)
               | Random \<Rightarrow> selectRandom s availableNodes
               | CapabilityBased \<Rightarrow> (selectByCapability h availableNodes task, s)))"

text \<open>
  The loop of \<open>scheduleNext\<close> over the copy of the sorted queue. An assigned task is
  spliced out of the queue and its execution is started; the started executions, each a
  call \<open>this.executeTask(node, task)\<close>, are returned in order. Queue entries are compared by
  value where the source compares object identity.
\<close>

fun schedule_loop ::
  "heap \<Rightarrow> 'p TaskScheduler \<Rightarrow> 'p Task list \<Rightarrow> 'p TaskScheduler \<times> (string \<times> 'p Task) list" where
  "schedule_loop h s [] = (s, [])"
| "schedule_loop h s (task # rest) =
     (case selectNode h s task of
        (None, s1) \<Rightarrow> schedule_loop h s1 rest
      | (Some (k, node), s1) \<Rightarrow>
          (case assignTask node task of
             (accepted, node', task') \<Rightarrow>
               if accepted then
                 (case schedule_loop h
                         (s1\<lparr>nodes := AList.update k node' (nodes s1),
                             taskQueue := remove1 task (taskQueue s1)\<rparr>) rest of
                    (s2, started) \<Rightarrow> (s2, (k, task') # started))
               else schedule_loop h s1 rest))"

definition scheduleNext :: "heap \<Rightarrow> 'p TaskScheduler \<Rightarrow> 'p TaskScheduler \<times> (string \<times> 'p Task) list" where
  "scheduleNext h s =
     (if length (taskQueue s) = 0 then (s, [])
      else
        let s1 = s\<lparr>taskQueue := sort_key (\<lambda>task. - priority task) (taskQueue s)\<rparr>
        in schedule_loop h s1 (taskQueue s1))"

definition submitTask ::
  "heap \<Rightarrow> 'p TaskScheduler \<Rightarrow> 'p Task \<Rightarrow> ('p TaskScheduler \<times> (string \<times> 'p Task) list) \<times> string" where
  "submitTask h s task = (scheduleNext h (s\<lparr>taskQueue := taskQueue s @ [task]\<rparr>), task_id task)"

definition submitTasks ::
  "heap \<Rightarrow> 'p TaskScheduler \<Rightarrow> 'p Task list
     \<Rightarrow> ('p TaskScheduler \<times> (string \<times> 'p Task) list) \<times> string list" where
  "submitTasks h s ts = (scheduleNext h (s\<lparr>taskQueue := taskQueue s @ ts\<rparr>), map task_id ts)"

text \<open>
  The continuation of the scheduler's \<open>executeTask\<close> after \<open>await Promise.race([...])\<close>:
  \<open>raced\<close> is the value the race settled with, a result of the node or the error of the
  node or of the timer.
\<close>

text \<open>
  \<open>task.priority--\<close> subtracts 1 in 64-bit floating point. \<open>spacing a\<close> is the distance
  between neighbouring representable numbers at the magnitude \<open>a\<close> (1 below \<open>2^53\<close>, doubling
  with every further bit), and \<open>js_round\<close> rounds an integer to the nearest representable
  one, a tie going to the even significand. Below \<open>2^53\<close> the decrement is exact.
\<close>

fun spacing :: "nat \<Rightarrow> nat" where
  "spacing a = (if a < 9007199254740992 then 1 else 2 * spacing (a div 2))"

definition js_round :: "int \<Rightarrow> int" where
  "js_round x =
     (let a = nat \<bar>x\<bar>;
          q = spacing a;
          lo = (a div q) * q;
          r = a - lo;
          m = (if 2 * r < q \<or> (2 * r = q \<and> even (a div q)) then lo else lo + q)
      in sgn x * int m)"

definition js_decrement :: "int \<Rightarrow> int" where
  "js_decrement p = js_round (p - 1)"

text \<open>
  The retry branch up to its scheduling pass: the priority of the task object is
  decremented and the task is pushed. A task object is modelled by its value, so the model
  appends the new value; it is exact where the tasks that are queued or running have
  distinct ids, as the task data model requires (a task object that had a second entry in
  the queue would show the decrement there as well).
\<close>

definition requeue :: "'p TaskScheduler \<Rightarrow> 'p Task \<Rightarrow> 'p TaskScheduler" where
  "requeue s task = s\<lparr>taskQueue := taskQueue s @ [task\<lparr>priority := js_decrement (priority task)\<rparr>]\<rparr>"

definition scheduler_executeTask ::
  "heap \<Rightarrow> 'p TaskScheduler \<Rightarrow> 'p Task \<Rightarrow> error + 'p TaskResult
     \<Rightarrow> 'p TaskScheduler \<times> (string \<times> 'p Task) list" where
  "scheduler_executeTask h s task raced =
     (case raced of
        Inr result \<Rightarrow>
          scheduleNext h (s\<lparr>taskResults := AList.update (task_id task) (Completed result) (taskResults s)\<rparr>)
      | Inl e \<Rightarrow>
          if priority task > - maxRetries (config s) then scheduleNext h (requeue s task)
          else (s\<lparr>taskResults := AList.update (task_id task) MaxRetriesExceeded (taskResults s)\<rparr>, []))"

text \<open>
  The settlement of \<open>node.executeTask\<close> changes the node object, which the registry shares
  with the running execution.
\<close>

definition node_settled ::
  "'p TaskScheduler \<Rightarrow> string \<Rightarrow> string \<Rightarrow> error + 'p TaskResult \<Rightarrow> 'p TaskScheduler" where
  "node_settled s k taskId settled =
     (case map_of (nodes s) k of
        None \<Rightarrow> s
      | Some node \<Rightarrow> s\<lparr>nodes := AList.update k (fst (executeTask_settle node taskId settled)) (nodes s)\<rparr>)"

definition getResult :: "'p TaskScheduler \<Rightarrow> string \<Rightarrow> 'p Outcome option" where
  "getResult s taskId = map_of (taskResults s) taskId"

definition isComplete :: "'p TaskScheduler \<Rightarrow> string \<Rightarrow> bool" where
  "isComplete s taskId \<longleftrightarrow> taskId \<in> set (map fst (taskResults s))"

definition getNodes :: "'p TaskScheduler \<Rightarrow> NodeInfo list" where
  "getNodes s = map (\<lambda>(k, node). getInfo node) (nodes s)"

definition clearResults :: "'p TaskScheduler \<Rightarrow> 'p TaskScheduler" where
  "clearResults s = s\<lparr>taskResults := []\<rparr>"

text \<open>
  A task of which every attempt fails or times out: the race of the first started
  execution settles with an error, \<open>n\<close> times in a row.
\<close>

fun fail_attempts ::
  "nat \<Rightarrow> heap \<Rightarrow> 'p TaskScheduler \<times> (string \<times> 'p Task) list
     \<Rightarrow> 'p TaskScheduler \<times> (string \<times> 'p Task) list" where
  "fail_attempts 0 h w = w"
| "fail_attempts (Suc n) h (s, []) = (s, [])"
| "fail_attempts (Suc n) h (s, (k, task) # started) =
     fail_attempts n h (scheduler_executeTask h s task (Inl TaskTimeout))"

subsection \<open>Invariants\<close>

text \<open>
  What every node keeps: the ceiling, the bound on the active set, the load as the quotient,
  and distinct keys in the task map (so that \<open>length\<close> is the map's size).
\<close>

definition node_inv :: "'p ComputeNode \<Rightarrow> bool" where
  "node_inv n \<longleftrightarrow>
     maxConcurrentTasks n = 4 \<and> length (tasks n) \<le> 4 \<and>
     load (info n) = of_nat (length (tasks n)) / 4 \<and> distinct (map fst (tasks n))"

text \<open>
  What the peer table keeps while the clock does not run backwards: a peer that is offline
  at time \<open>t\<close> has been silent for more than three heartbeat intervals.
\<close>

definition peers_aged :: "int \<Rightarrow> 'p Communication \<Rightarrow> bool" where
  "peers_aged t c \<longleftrightarrow>
     distinct (map fst (peers c)) \<and>
     (\<forall>(peerId, peer) \<in> set (peers c).
        peer_status peer = PeerOffline \<longrightarrow> t - lastSeen peer > heartbeatInterval (config_c c) * 3)"

text \<open>A task with its placement erased: the fields that a placement does not write.\<close>

definition unassigned :: "'p Task \<Rightarrow> 'p Task" where
  "unassigned task = task\<lparr>assignedTo := None\<rparr>"

subsection \<open>Concrete scenarios\<close>

definition demo_task :: "unit Task" where
  "demo_task = createTask ''task1'' ''inference'' () None 0"


definition demo_node :: "unit ComputeNode" where
  "demo_node = createComputeNode ''node1'' None None 0"

definition caps_heap :: heap where
  "caps_heap = (\<lambda>r. [])(0 := [''inference''])"

definition no_capabilities :: heap where
  "no_capabilities = (\<lambda>r. [])"

definition comm0 :: "Timers \<times> unit Communication" where
  "comm0 = (\<lparr>active = [], fresh = 1\<rparr>,
            createCommunication ''node1''
              \<lparr>heartbeatInterval_opt = None, messageTimeout_opt = None, maxRetries_c_opt = None\<rparr>)"

definition demo_events :: "(int \<times> unit comm_event) list" where
  "demo_events = [(0, EvStart), (0, EvRegisterPeer ''node2''), (100, EvHeartbeat ''m1''),
                  (200, EvHeartbeat ''m2''), (300, EvHeartbeat ''m3'')]"

definition demo_comm :: "unit Communication" where
  "demo_comm = snd (comm_run (\<lparr>active = [], fresh = 1\<rparr>,
      Communication_constructor ''node1''
        \<lparr>heartbeatInterval_opt = Some 100, messageTimeout_opt = None, maxRetries_c_opt = None\<rparr>) demo_events)"

definition demo_message :: "unit Message" where
  "demo_message = \<lparr>msg_id = ''m9'', msg_type = Response, msg_from = ''node2'', msg_to = To ''node1'',
                   msg_payload = Data (), timestamp = 410\<rparr>"

definition throwing_handler :: "unit Message \<Rightarrow> unit call_result" where
  "throwing_handler message = Threw"

definition returning_handler :: "unit Message \<Rightarrow> unit call_result" where
  "returning_handler message = Returned message"

definition retry_scheduler :: "unit TaskScheduler" where
  "retry_scheduler =
     registerNode
       (createScheduler \<lparr>strategy_opt = None, maxRetries_opt = Some 3, timeout_opt = Some 50\<rparr> (\<lambda>k. 0))
       (createComputeNode ''node1'' None None 0)"

definition retry_task :: "unit Task" where
  "retry_task = createTask ''task1'' ''training'' () (Some 5) 0"


section \<open>Properties of the compute node\<close>

lemma length_update_le: "length (AList.update k v al) \<le> Suc (length al)"
  by (induction al) auto

lemma node_inv_constructor: "node_inv (ComputeNode_constructor i a p caps)"
  by (simp add: node_inv_def ComputeNode_constructor_def)

lemma node_inv_assignTask: "node_inv n \<Longrightarrow> node_inv (fst (snd (assignTask n task)))"
proof -
  assume inv: "node_inv n"
  show ?thesis
  proof (cases "canAcceptTask n")
    case False
    then show ?thesis using inv by (simp add: assignTask_def)
  next
    case True
    let ?al = "AList.update (task_id task) (task\<lparr>assignedTo := Some (info_id (info n))\<rparr>) (tasks n)"
    from True inv have "length (tasks n) < 4"
      by (simp add: canAcceptTask_def node_inv_def)
    with length_update_le [of "task_id task" _ "tasks n"] have "length ?al \<le> 4"
      by (meson Suc_leI le_trans)
    moreover have "distinct (map fst ?al)"
      using inv by (simp add: node_inv_def distinct_update)
    ultimately show ?thesis
      using True inv by (simp add: assignTask_def Let_def updateLoad_def node_inv_def)
  qed
qed

lemma node_inv_settle: "node_inv n \<Longrightarrow> node_inv (fst (executeTask_settle n taskId settled))"
proof -
  assume inv: "node_inv n"
  have "length (AList.delete taskId (tasks n)) \<le> 4"
    using inv length_delete_le [of taskId "tasks n"] by (simp add: node_inv_def)
  moreover have "distinct (map fst (AList.delete taskId (tasks n)))"
    using inv by (simp add: node_inv_def distinct_delete)
  ultimately show ?thesis
    using inv by (cases settled) (simp_all add: executeTask_settle_def Let_def updateLoad_def node_inv_def)
qed

lemma node_inv_executeTask: "node_inv n \<Longrightarrow> node_inv (fst (executeTask handler n taskId))"
  by (simp add: executeTask_def node_inv_settle split: option.split)

lemma node_inv_setStatus: "node_inv n \<Longrightarrow> node_inv (setStatus n st)"
  by (simp add: node_inv_def setStatus_def)

lemma node_inv_step: "node_inv n \<Longrightarrow> node_inv (node_step n op)"
  by (cases op) (simp_all add: node_inv_assignTask node_inv_settle node_inv_executeTask node_inv_setStatus)

lemma node_inv_run: "node_inv n \<Longrightarrow> node_inv (node_run n ops)"
  unfolding node_run_def by (induction ops arbitrary: n) (simp_all add: node_inv_step)

lemma executeTask_settle_removes:
  "map_of (tasks (fst (executeTask_settle n taskId settled))) taskId = None"
  by (cases settled) (simp_all add: executeTask_settle_def Let_def updateLoad_def delete_conv')

text \<open>
  C4. After the constructor and after any sequence of \<open>assignTask\<close>, \<open>executeTask\<close>
  (succeeding, failing or not finding the task), late settlements and \<open>setStatus\<close>, the load
  of a node is its active task count divided by its ceiling, and lies between 0 and 1.
\<close>

theorem load_invariant:
  fixes ops :: "'p node_op list"
  shows "let n = node_run (ComputeNode_constructor i a p caps) ops in
     load (info n) = of_nat (getTaskCount n) / of_nat (maxConcurrentTasks n)
     \<and> 0 \<le> load (info n) \<and> load (info n) \<le> 1"
proof -
  have "node_inv (node_run (ComputeNode_constructor i a p caps) ops :: 'p ComputeNode)"
    by (rule node_inv_run [OF node_inv_constructor])
  then show ?thesis
    by (simp add: node_inv_def getTaskCount_def Let_def)
qed

theorem load_invariant_witness:
  "load (info (node_run (ComputeNode_constructor ''node1'' ''localhost'' 8080 0)
           [OpAssign demo_task, OpSetStatus Offline, OpSettle ''task1'' (Inl HandlerFailed)])) = 0
   \<and> getTaskCount (node_run (ComputeNode_constructor ''node1'' ''localhost'' 8080 0)
           [OpAssign demo_task, OpSetStatus Offline, OpSettle ''task1'' (Inl HandlerFailed)]) = 0"
  using load_invariant [of "''node1''" "''localhost''" 8080 0
          "[OpAssign demo_task, OpSetStatus Offline, OpSettle ''task1'' (Inl HandlerFailed)]"]
  by (simp add: node_run_def demo_task_def createTask_def ComputeNode_constructor_def assignTask_def
        canAcceptTask_def updateLoad_def setStatus_def executeTask_settle_def getTaskCount_def Let_def)

lemma quarter_cases: "k \<le> 4 \<Longrightarrow> (of_nat k / 4 :: rat) \<in> {0, 1/4, 1/2, 3/4, 1}"
proof -
  assume "k \<le> 4"
  then have "k = 0 \<or> k = 1 \<or> k = 2 \<or> k = 3 \<or> k = 4" by arith
  then show ?thesis by auto
qed

text \<open>
  C10. A node made by \<open>createComputeNode\<close> (which has no parameter for the ceiling) has
  ceiling 4 after any sequence of operations; it never holds more than 4 tasks, accepts a
  task only while it holds fewer than 4, and its load is one of 0, 1/4, 1/2, 3/4, 1.
\<close>

theorem ceiling_fixed:
  fixes ops :: "'p node_op list"
  shows "let n = node_run (createComputeNode i a p caps) ops in
     maxConcurrentTasks n = 4 \<and> getTaskCount n \<le> 4
     \<and> (\<forall>task. fst (assignTask n task) \<longrightarrow> getTaskCount n < 4)
     \<and> load (info n) \<in> {0, 1/4, 1/2, 3/4, 1}"
proof -
  let ?n = "node_run (createComputeNode i a p caps) ops :: 'p ComputeNode"
  have inv: "node_inv ?n"
    unfolding createComputeNode_def by (rule node_inv_run [OF node_inv_constructor])
  have acc: "\<forall>task. fst (assignTask ?n task) \<longrightarrow> getTaskCount ?n < 4"
    using inv by (auto simp: assignTask_def canAcceptTask_def node_inv_def getTaskCount_def Let_def split: if_splits)
  have l: "load (info ?n) = of_nat (length (tasks ?n)) / 4" and k: "length (tasks ?n) \<le> 4"
    using inv by (simp_all add: node_inv_def)
  have "load (info ?n) \<in> {0, 1/4, 1/2, 3/4, 1}"
    unfolding l by (rule quarter_cases [OF k])
  with inv acc show ?thesis
    by (simp add: node_inv_def getTaskCount_def Let_def)
qed

theorem ceiling_fixed_witness:
  "fst (assignTask (node_run demo_node [OpAssign demo_task]) demo_task)
   \<and> getTaskCount (node_run demo_node [OpAssign demo_task]) < 4
   \<and> load (info (node_run demo_node [OpAssign demo_task])) = 1/4"
proof -
  have acc: "fst (assignTask (node_run demo_node [OpAssign demo_task]) demo_task)"
    by (simp add: node_run_def demo_node_def demo_task_def createTask_def createComputeNode_def
          ComputeNode_constructor_def assignTask_def canAcceptTask_def updateLoad_def Let_def)
  have ld: "load (info (node_run demo_node [OpAssign demo_task])) = 1/4"
    by (simp add: node_run_def demo_node_def demo_task_def createTask_def createComputeNode_def
          ComputeNode_constructor_def assignTask_def canAcceptTask_def updateLoad_def Let_def)
  from ceiling_fixed [of "''node1''" None None 0 "[OpAssign demo_task]"] acc
  have "getTaskCount (node_run demo_node [OpAssign demo_task]) < 4"
    unfolding demo_node_def Let_def by blast
  with acc ld show ?thesis by simp
qed

text \<open>
  C2. A node holds the single task \<open>task1\<close> and its handler fails: the \<open>catch\<close> block
  removes the task, so the active set is empty, but the status stays \<open>Busy\<close>. When the
  handler succeeds on the same node, the \<open>try\<close> block sets the status to \<open>Idle\<close>.
\<close>

theorem failed_execution_leaves_node_busy:
  "map_of (tasks (node_run demo_node [OpAssign demo_task])) ''task1'' \<noteq> None
   \<and> tasks (fst (executeTask (\<lambda>task. Inl HandlerFailed) (node_run demo_node [OpAssign demo_task]) ''task1'')) = []
   \<and> status (info (fst (executeTask (\<lambda>task. Inl HandlerFailed) (node_run demo_node [OpAssign demo_task]) ''task1''))) = Busy
   \<and> status (info (fst (executeTask (\<lambda>task. Inr (processTask task)) (node_run demo_node [OpAssign demo_task]) ''task1''))) = Idle"
  by (simp add: node_run_def demo_node_def demo_task_def createTask_def createComputeNode_def
        ComputeNode_constructor_def assignTask_def canAcceptTask_def updateLoad_def executeTask_def
        executeTask_settle_def Let_def)

text \<open>
  C7. The node \<open>node1\<close> has the capability array \<open>[inference]\<close>. Pushing \<open>training\<close> onto
  the \<open>capabilities\<close> of the object that \<open>getInfo\<close> returned gives the node the capability
  \<open>training\<close>; and a capability that the node adds later shows in the array of the object
  returned before.
\<close>

theorem getInfo_shares_capabilities:
  "\<not> hasCapability caps_heap demo_node ''training''
   \<and> hasCapability (array_push caps_heap (capabilities (getInfo demo_node)) ''training'') demo_node ''training''
   \<and> caps_heap (capabilities (getInfo demo_node)) = [''inference'']
   \<and> (addCapability caps_heap demo_node ''gpu'') (capabilities (getInfo demo_node)) = [''inference'', ''gpu'']"
  by (simp add: hasCapability_def caps_heap_def array_push_def addCapability_def getInfo_def
        demo_node_def createComputeNode_def ComputeNode_constructor_def)

section \<open>Properties of the communication layer\<close>

lemma set_update_subset: "set (AList.update k v al) \<subseteq> insert (k, v) (set al)"
  by (induction al) auto

lemma set_delete_subset: "set (AList.delete k al) \<subseteq> set al"
  by (auto simp: AList.delete_eq)

lemma peers_aged_mono: "peers_aged t c \<Longrightarrow> t \<le> t' \<Longrightarrow> peers_aged t' c"
  by (fastforce simp: peers_aged_def)

lemma peers_aged_constructor: "peers_aged t (Communication_constructor nid cfg)"
  by (simp add: peers_aged_def Communication_constructor_def)

lemma peers_aged_registerPeer: "peers_aged t c \<Longrightarrow> peers_aged t (registerPeer c t peerId)"
  using set_update_subset [of peerId "\<lparr>lastSeen = t, peer_status = PeerOnline\<rparr>" "peers c"]
  by (auto simp: peers_aged_def registerPeer_def distinct_update)

lemma peers_aged_updatePeer: "peers_aged t c \<Longrightarrow> peers_aged t (updatePeer c t peerId)"
proof (cases "map_of (peers c) peerId")
  case None
  assume "peers_aged t c"
  then show ?thesis using None by (simp add: updatePeer_def peers_aged_registerPeer)
next
  case (Some peer)
  assume "peers_aged t c"
  then show ?thesis
    using Some set_update_subset [of peerId "peer\<lparr>lastSeen := t, peer_status := PeerOnline\<rparr>" "peers c"]
    by (auto simp: peers_aged_def updatePeer_def distinct_update)
qed

lemma peers_aged_unregisterPeer: "peers_aged t c \<Longrightarrow> peers_aged t (fst (unregisterPeer c peerId))"
  using set_delete_subset [of peerId "peers c"]
  by (auto simp: peers_aged_def unregisterPeer_def distinct_delete)

lemma checkPeerStatus_keys: "map fst (peers (checkPeerStatus c now)) = map fst (peers c)"
  by (simp add: checkPeerStatus_def Let_def case_prod_unfold comp_def)

lemma peers_aged_checkPeerStatus: "peers_aged t c \<Longrightarrow> peers_aged t (checkPeerStatus c t)"
  unfolding peers_aged_def checkPeerStatus_keys
  by (auto simp: checkPeerStatus_def Let_def split: if_splits)

lemma peers_aged_sendHeartbeat: "peers_aged t c \<Longrightarrow> peers_aged t (sendHeartbeat c t' mid)"
  by (simp add: peers_aged_def sendHeartbeat_def send_def Let_def)

lemma peers_aged_cong:
  "peers c' = peers c \<Longrightarrow> config_c c' = config_c c \<Longrightarrow> peers_aged t c \<Longrightarrow> peers_aged t c'"
  by (simp add: peers_aged_def)

lemma peers_aged_step:
  assumes "peers_aged t c"
  shows "peers_aged t (snd (comm_step (tm, c) (t, ev)))"
proof (cases ev)
  case EvStart
  then show ?thesis
    using assms by (auto simp: start_def startHeartbeat_def setInterval_def intro: peers_aged_cong)
next
  case EvStop
  then show ?thesis
    using assms by (auto simp: stop_def split: option.split intro: peers_aged_cong)
next
  case (EvSend mid recipient p ty)
  then show ?thesis
    using assms by (auto simp: send_def Let_def intro: peers_aged_cong)
next
  case (EvTransmitted mid)
  then show ?thesis
    using assms by (auto simp: transmit_def intro: peers_aged_cong)
next
  case (EvBroadcast mid p)
  then show ?thesis
    using assms by (auto simp: transmit_def broadcast_def Let_def intro: peers_aged_cong)
next
  case (EvOnMessage ty handler)
  then show ?thesis
    using assms by (auto simp: onMessage_def intro: peers_aged_cong)
next
  case (EvHandleMessage message)
  then show ?thesis
    using assms by (simp add: handleMessage_def peers_aged_updatePeer split: call_result.split)
next
  case (EvRegisterPeer peerId)
  then show ?thesis
    using assms by (simp add: peers_aged_registerPeer)
next
  case (EvUnregisterPeer peerId)
  then show ?thesis
    using assms by (simp add: peers_aged_unregisterPeer)
next
  case (EvHeartbeat mid)
  then show ?thesis
    using assms by (simp add: heartbeat_callback_def peers_aged_checkPeerStatus peers_aged_sendHeartbeat)
qed

lemma peers_aged_run:
  "sorted (map fst evs) \<Longrightarrow> \<forall>t \<in> set (map fst evs). t \<le> T \<Longrightarrow>
   peers_aged T (snd (comm_run (tm0, Communication_constructor nid cfg) evs))"
proof (induction evs arbitrary: T rule: rev_induct)
  case Nil
  then show ?case by (simp add: comm_run_def peers_aged_constructor)
next
  case (snoc e evs)
  obtain t ev where e: "e = (t, ev)" by (cases e)
  obtain tm c where w: "comm_run (tm0, Communication_constructor nid cfg) evs = (tm, c)"
    by (cases "comm_run (tm0, Communication_constructor nid cfg) evs")
  from snoc.prems e have srt: "sorted (map fst evs)" and le: "\<forall>u \<in> set (map fst evs). u \<le> t" and tT: "t \<le> T"
    by (auto simp: sorted_append)
  from snoc.IH [OF srt le] w have "peers_aged t c" by simp
  then have "peers_aged t (snd (comm_step (tm, c) (t, ev)))" by (rule peers_aged_step)
  then have "peers_aged T (snd (comm_step (tm, c) (t, ev)))" using tT by (rule peers_aged_mono)
  then show ?case using e w by (simp add: comm_run_def)
qed

lemma handleMessage_refreshes:
  "callHandler c m = Returned m' \<Longrightarrow> msg_from m' \<noteq> nodeId c \<Longrightarrow>
   map_of (peers (fst (handleMessage c now m))) (msg_from m') = Some \<lparr>lastSeen = now, peer_status = PeerOnline\<rparr>"
  by (simp add: handleMessage_def updatePeer_def registerPeer_def update_conv' split: option.split)

lemma handleMessage_thrown:
  "callHandler c m = Threw \<Longrightarrow> handleMessage c now m = (c, Threw)"
  by (simp add: handleMessage_def)

lemma heartbeat_callback_peers:
  "peers (heartbeat_callback c now_send mid now) = peers (checkPeerStatus c now)"
  by (simp add: heartbeat_callback_def checkPeerStatus_def sendHeartbeat_def send_def Let_def)

lemma checkPeerStatus_peer:
  "map_of (peers c) peerId = Some peer \<Longrightarrow>
   map_of (peers (checkPeerStatus c now)) peerId =
     Some (if now - lastSeen peer > heartbeatInterval (config_c c) * 3
           then peer\<lparr>peer_status := PeerOffline\<rparr> else peer)"
proof -
  assume p: "map_of (peers c) peerId = Some peer"
  let ?f = "\<lambda>peer. if now - lastSeen peer > heartbeatInterval (config_c c) * 3
                   then peer\<lparr>peer_status := PeerOffline\<rparr> else peer"
  have "peers (checkPeerStatus c now) = map (\<lambda>(k, v). (k, ?f v)) (peers c)"
    by (simp add: checkPeerStatus_def Let_def)
  then have "map_of (peers (checkPeerStatus c now)) peerId = Some (?f peer)"
    using p by (simp add: map_of_map)
  then show ?thesis .
qed

text \<open>
  C5, as the code has it. A scan at the time \<open>now\<close> keeps the keys of the peer table and
  every \<open>lastSeen\<close>; it sets a peer offline when \<open>now - lastSeen\<close> exceeds three heartbeat
  intervals and leaves the status of every other peer as it was, so that after the scan a
  peer is offline exactly when it exceeds the limit or was offline before. \<open>handleMessage\<close>
  on a message from that peer, the peer not being the local node, leaves the peer online
  with \<open>lastSeen\<close> set to the time of the call when the handler for the type of the message,
  if one is registered, returns and leaves that peer as the sender of the message; when the
  handler throws, the peer table is left as it was.
\<close>

theorem heartbeat_scan:
  fixes c :: "'p Communication"
  assumes "map_of (peers c) peerId = Some peer"
  shows "peers (heartbeat_callback c now_send mid now) = peers (checkPeerStatus c now)
     \<and> map fst (peers (checkPeerStatus c now)) = map fst (peers c)
     \<and> (\<exists>peer'. map_of (peers (checkPeerStatus c now)) peerId = Some peer'
          \<and> lastSeen peer' = lastSeen peer
          \<and> (peer_status peer' = PeerOffline \<longleftrightarrow>
               now - lastSeen peer > 3 * heartbeatInterval (config_c c) \<or> peer_status peer = PeerOffline))
     \<and> (\<forall>(c' :: 'p Communication) now' m m'.
          (callHandler c' m = Returned m' \<and> msg_from m' = peerId \<and> peerId \<noteq> nodeId c' \<longrightarrow>
             map_of (peers (fst (handleMessage c' now' m))) peerId
               = Some \<lparr>lastSeen = now', peer_status = PeerOnline\<rparr>)
          \<and> (callHandler c' m = Threw \<longrightarrow> peers (fst (handleMessage c' now' m)) = peers c'))"
proof -
  let ?peer' = "if now - lastSeen peer > heartbeatInterval (config_c c) * 3
                then peer\<lparr>peer_status := PeerOffline\<rparr> else peer"
  have "map_of (peers (checkPeerStatus c now)) peerId = Some ?peer'"
    using assms by (rule checkPeerStatus_peer)
  moreover have "lastSeen ?peer' = lastSeen peer" by simp
  moreover have "peer_status ?peer' = PeerOffline \<longleftrightarrow>
      now - lastSeen peer > 3 * heartbeatInterval (config_c c) \<or> peer_status peer = PeerOffline"
    by (auto simp: mult.commute)
  ultimately have scan: "\<exists>peer'. map_of (peers (checkPeerStatus c now)) peerId = Some peer'
          \<and> lastSeen peer' = lastSeen peer
          \<and> (peer_status peer' = PeerOffline \<longleftrightarrow>
               now - lastSeen peer > 3 * heartbeatInterval (config_c c) \<or> peer_status peer = PeerOffline)"
    by blast
  have msg: "\<forall>(c' :: 'p Communication) now' m m'.
          (callHandler c' m = Returned m' \<and> msg_from m' = peerId \<and> peerId \<noteq> nodeId c' \<longrightarrow>
             map_of (peers (fst (handleMessage c' now' m))) peerId
               = Some \<lparr>lastSeen = now', peer_status = PeerOnline\<rparr>)
          \<and> (callHandler c' m = Threw \<longrightarrow> peers (fst (handleMessage c' now' m)) = peers c')"
    using handleMessage_refreshes handleMessage_thrown by fastforce
  from heartbeat_callback_peers checkPeerStatus_keys scan msg show ?thesis by blast
qed

lemma demo_comm_peers: "peers demo_comm = [(''node2'', \<lparr>lastSeen = 0, peer_status = PeerOnline\<rparr>)]"
  by (simp add: demo_comm_def demo_events_def comm_run_def Communication_constructor_def or_default_def
        start_def startHeartbeat_def setInterval_def registerPeer_def heartbeat_callback_def
        sendHeartbeat_def send_def checkPeerStatus_def Let_def)

lemma demo_comm_config:
  "heartbeatInterval (config_c demo_comm) = 100 \<and> nodeId demo_comm = ''node1''
   \<and> messageHandlers demo_comm = []"
  by (simp add: demo_comm_def demo_events_def comm_run_def Communication_constructor_def or_default_def
        start_def startHeartbeat_def setInterval_def registerPeer_def heartbeat_callback_def
        sendHeartbeat_def send_def checkPeerStatus_def Let_def)

lemma demo_comm_scanned:
  "peers (checkPeerStatus demo_comm 400) = [(''node2'', \<lparr>lastSeen = 0, peer_status = PeerOffline\<rparr>)]
   \<and> nodeId (checkPeerStatus demo_comm 400) = ''node1''
   \<and> heartbeatInterval (config_c (checkPeerStatus demo_comm 400)) = 100
   \<and> messageHandlers (checkPeerStatus demo_comm 400) = []"
  by (simp add: checkPeerStatus_def Let_def demo_comm_peers demo_comm_config)

theorem heartbeat_scan_witness:
  "map_of (peers demo_comm) ''node2'' = Some \<lparr>lastSeen = 0, peer_status = PeerOnline\<rparr>
   \<and> getPeerStatus (checkPeerStatus demo_comm 400) ''node2'' = Some PeerOffline
   \<and> getPeers (checkPeerStatus demo_comm 400) = [''node2'']
   \<and> callHandler (onMessage (checkPeerStatus demo_comm 400) Response returning_handler) demo_message
       = Returned demo_message
   \<and> getPeerStatus (fst (handleMessage
        (onMessage (checkPeerStatus demo_comm 400) Response returning_handler) 410 demo_message)) ''node2''
       = Some PeerOnline
   \<and> callHandler (onMessage (checkPeerStatus demo_comm 400) Response throwing_handler) demo_message = Threw
   \<and> peers (fst (handleMessage
        (onMessage (checkPeerStatus demo_comm 400) Response throwing_handler) 410 demo_message))
       = peers (checkPeerStatus demo_comm 400)"
proof -
  let ?scanned = "checkPeerStatus demo_comm 400"
  let ?ok = "onMessage ?scanned Response returning_handler"
  let ?bad = "onMessage ?scanned Response throwing_handler"
  have h: "map_of (peers demo_comm) ''node2'' = Some \<lparr>lastSeen = 0, peer_status = PeerOnline\<rparr>"
    by (simp add: demo_comm_peers)
  note scan = heartbeat_scan [OF h, of _ _ 400]
  from scan have keys: "map fst (peers ?scanned) = map fst (peers demo_comm)"
    by blast
  from scan obtain peer' where p: "map_of (peers ?scanned) ''node2'' = Some peer'"
    and st: "peer_status peer' = PeerOffline \<longleftrightarrow>
      400 - lastSeen \<lparr>lastSeen = 0, peer_status = PeerOnline\<rparr> > 3 * heartbeatInterval (config_c demo_comm)
      \<or> peer_status \<lparr>lastSeen = 0, peer_status = PeerOnline\<rparr> = PeerOffline"
    by blast
  from st have "peer_status peer' = PeerOffline" by (simp add: demo_comm_config)
  with p have off: "getPeerStatus ?scanned ''node2'' = Some PeerOffline"
    by (simp add: getPeerStatus_def)
  have ret: "callHandler ?ok demo_message = Returned demo_message"
    by (simp add: callHandler_def onMessage_def demo_message_def returning_handler_def demo_comm_scanned)
  have thr: "callHandler ?bad demo_message = Threw"
    by (simp add: callHandler_def onMessage_def demo_message_def throwing_handler_def demo_comm_scanned)
  have from2: "msg_from demo_message = ''node2''" by (simp add: demo_message_def)
  have nid: "''node2'' \<noteq> nodeId ?ok" "''node2'' \<noteq> nodeId ?bad"
    by (simp_all add: onMessage_def demo_comm_scanned)
  from scan from2 nid(1) ret
  have "map_of (peers (fst (handleMessage ?ok 410 demo_message))) ''node2''
          = Some \<lparr>lastSeen = 410, peer_status = PeerOnline\<rparr>"
    by blast
  then have on: "getPeerStatus (fst (handleMessage ?ok 410 demo_message)) ''node2'' = Some PeerOnline"
    by (simp add: getPeerStatus_def)
  from scan from2 nid(2) thr
  have "peers (fst (handleMessage ?bad 410 demo_message)) = peers ?bad"
    by blast
  then have same: "peers (fst (handleMessage ?bad 410 demo_message)) = peers ?scanned"
    by (simp add: onMessage_def)
  from h off keys ret on thr same show ?thesis
    by (simp add: getPeers_def demo_comm_peers)
qed

text \<open>
  C5, as stated, fails in two ways. A peer last seen at 0 is marked offline by a scan at
  clock reading 400 (the heartbeat interval is 100); at the next scan the clock reads 200,
  which does not exceed the limit of 300, and the peer is still offline. And when the
  handler registered for the type of a message throws, \<open>handleMessage\<close> on a message from
  the offline peer leaves it offline.
\<close>

theorem heartbeat_scan_fails:
  "getPeerStatus (checkPeerStatus demo_comm 400) ''node2'' = Some PeerOffline
   \<and> map_option lastSeen (map_of (peers (checkPeerStatus demo_comm 400)) ''node2'') = Some 0
   \<and> \<not> 200 - 0 > 3 * heartbeatInterval (config_c (checkPeerStatus demo_comm 400))
   \<and> getPeerStatus (checkPeerStatus (checkPeerStatus demo_comm 400) 200) ''node2'' = Some PeerOffline
   \<and> msg_from demo_message = ''node2''
   \<and> getPeerStatus (fst (handleMessage
        (onMessage (checkPeerStatus demo_comm 400) Response throwing_handler) 410 demo_message)) ''node2''
       = Some PeerOffline"
  by (simp add: getPeerStatus_def checkPeerStatus_def [of "checkPeerStatus demo_comm 400"]
        demo_comm_scanned handleMessage_def callHandler_def onMessage_def demo_message_def
        throwing_handler_def Let_def)

text \<open>
  The statement of C5 about the scan does hold along a history of the instance's own
  operations whose clock readings do not decrease, the scan not being earlier than the
  history and the configuration object not being written to from outside: there a peer
  that is offline has exceeded the limit.
\<close>

lemma scan_iff_while_clock_monotone:
  fixes evs :: "(int \<times> 'p comm_event) list"
  assumes "sorted (map fst evs)" and "\<forall>t \<in> set (map fst evs). t \<le> now"
    and "c = snd (comm_run (tm0, Communication_constructor nid cfg) evs)"
    and "map_of (peers c) peerId = Some peer"
  shows "\<exists>peer'. map_of (peers (checkPeerStatus c now)) peerId = Some peer'
          \<and> (peer_status peer' = PeerOffline \<longleftrightarrow> now - lastSeen peer > 3 * heartbeatInterval (config_c c))"
proof -
  have aged: "peers_aged now c"
    using assms(1,2,3) peers_aged_run by blast
  have "(peerId, peer) \<in> set (peers c)"
    using assms(4) by (rule map_of_SomeD)
  with aged have off: "peer_status peer = PeerOffline \<longrightarrow> now - lastSeen peer > heartbeatInterval (config_c c) * 3"
    by (auto simp: peers_aged_def)
  let ?peer' = "if now - lastSeen peer > heartbeatInterval (config_c c) * 3
                then peer\<lparr>peer_status := PeerOffline\<rparr> else peer"
  have "map_of (peers (checkPeerStatus c now)) peerId = Some ?peer'"
    using assms(4) by (rule checkPeerStatus_peer)
  moreover have "peer_status ?peer' = PeerOffline \<longleftrightarrow> now - lastSeen peer > 3 * heartbeatInterval (config_c c)"
    using off by (auto simp: mult.commute)
  ultimately show ?thesis by blast
qed

lemma stop_idempotent: "stop (stop w) = stop w"
  by (cases w) (simp add: stop_def split: option.split)

text \<open>
  C8. On a fresh instance, \<open>start\<close> twice schedules two interval timers where \<open>start\<close>
  once schedules one, and the \<open>stop\<close> that follows clears only the second: the timer of
  the first \<open>start\<close> stays scheduled although the instance holds no handle any more.
\<close>

theorem start_twice_leaks_timer:
  "active (fst (start comm0)) = [1] \<and> active (fst (start (start comm0))) = [1, 2]
   \<and> start (start comm0) \<noteq> start comm0
   \<and> heartbeatTimer (snd (stop (start (start comm0)))) = None
   \<and> active (fst (stop (start (start comm0)))) = [1]"
  by (simp add: comm0_def start_def startHeartbeat_def stop_def setInterval_def clearInterval_def
        createCommunication_def Communication_constructor_def)

section \<open>Properties of the scheduler\<close>

text \<open>
  C9. A configuration field given as 0 is replaced by the default: \<open>maxRetries\<close> 0 becomes
  3 and \<open>timeout\<close> 0 becomes 30000 in the scheduler; \<open>heartbeatInterval\<close> 0 becomes 5000,
  \<open>messageTimeout\<close> 0 becomes 10000 and \<open>maxRetries\<close> 0 becomes 3 in the communication
  instance.
\<close>

theorem zero_config_defaults:
  "maxRetries (config (TaskScheduler_constructor (cfg\<lparr>maxRetries_opt := Some 0\<rparr>) rnd)) = 3
   \<and> timeout (config (TaskScheduler_constructor (cfg\<lparr>timeout_opt := Some 0\<rparr>) rnd)) = 30000
   \<and> heartbeatInterval (config_c (Communication_constructor nid (ccfg\<lparr>heartbeatInterval_opt := Some 0\<rparr>))) = 5000
   \<and> messageTimeout (config_c (Communication_constructor nid (ccfg\<lparr>messageTimeout_opt := Some 0\<rparr>))) = 10000
   \<and> maxRetries_c (config_c (Communication_constructor nid (ccfg\<lparr>maxRetries_c_opt := Some 0\<rparr>))) = 3"
  by (simp add: TaskScheduler_constructor_def Communication_constructor_def or_default_def)



lemma selectNode_frame:
  "taskQueue (snd (selectNode h s task)) = taskQueue s"
  "config (snd (selectNode h s task)) = config s"
  "nodes (snd (selectNode h s task)) = nodes s"
  "taskResults (snd (selectNode h s task)) = taskResults s"
  by (simp_all add: selectNode_def selectRoundRobin_def selectRandom_def Let_def
        split: SchedulingStrategy.split)

lemma assignTask_accepted:
  "assignTask n task = (True, n', task') \<Longrightarrow> task' = task\<lparr>assignedTo := Some (info_id (info n))\<rparr>"
  by (simp add: assignTask_def Let_def split: if_splits)


lemma schedule_loop_mset:
  "mset ts \<subseteq># mset (taskQueue s) \<Longrightarrow> schedule_loop h s ts = (s', started) \<Longrightarrow>
   mset (map unassigned (taskQueue s')) + mset (map (\<lambda>x. unassigned (snd x)) started)
     = mset (map unassigned (taskQueue s))
   \<and> taskResults s' = taskResults s"
proof (induction ts arbitrary: s s' started)
  case Nil
  then show ?case by simp
next
  case (Cons task rest)
  obtain r s1 where sel: "selectNode h s task = (r, s1)" by (cases "selectNode h s task")
  have q1: "taskQueue s1 = taskQueue s" and r1: "taskResults s1 = taskResults s"
    using selectNode_frame(1,4) [of h s task] sel by simp_all
  from Cons.prems(1) have "add_mset task (mset rest) \<subseteq># mset (taskQueue s)" by simp
  from mset_subset_eq_insertD [OF this]
  have mem: "task \<in># mset (taskQueue s)" and "mset rest \<subset># mset (taskQueue s)" by simp_all
  then have sub: "mset rest \<subseteq># mset (taskQueue s)" by (simp add: subset_mset.less_imp_le)
  show ?case
  proof (cases r)
    case None
    with Cons.prems(2) sel have "schedule_loop h s1 rest = (s', started)" by simp
    with Cons.IH [of s1 s' started] sub q1 r1 show ?thesis by simp
  next
    case (Some kn)
    obtain k node where kn: "kn = (k, node)" by (cases kn)
    obtain acc node' task' where asg: "assignTask node task = (acc, node', task')"
      by (cases "assignTask node task")
    show ?thesis
    proof (cases acc)
      case False
      with Cons.prems(2) sel Some kn asg have "schedule_loop h s1 rest = (s', started)" by simp
      with Cons.IH [of s1 s' started] sub q1 r1 show ?thesis by simp
    next
      case True
      let ?s2 = "s1\<lparr>nodes := AList.update k node' (nodes s1), taskQueue := remove1 task (taskQueue s1)\<rparr>"
      obtain s2' started' where rec: "schedule_loop h ?s2 rest = (s2', started')"
        by (cases "schedule_loop h ?s2 rest")
      from Cons.prems(2) sel Some kn asg True rec
      have eq: "s' = s2'" "started = (k, task') # started'" by simp_all
      from asg True have t': "unassigned task' = unassigned task"
        by (auto simp: unassigned_def dest: assignTask_accepted)
      have sub2: "mset rest \<subseteq># mset (taskQueue ?s2)"
        using Cons.prems(1) q1 by (simp add: insert_subset_eq_iff)
      from Cons.IH [OF sub2 rec]
      have "mset (map unassigned (taskQueue s2')) + mset (map (\<lambda>x. unassigned (snd x)) started')
              = mset (map unassigned (remove1 task (taskQueue s)))"
        and "taskResults s2' = taskResults s" using q1 r1 by (simp_all add: comp_def)
      moreover have "mset (map unassigned (taskQueue s))
              = mset (map unassigned (remove1 task (taskQueue s))) + {#unassigned task#}"
        using mem by (metis image_mset_add_mset insert_DiffM mset_map mset_remove1 union_mset_add_mset_right add.right_neutral)
      ultimately show ?thesis using eq t' by simp
    qed
  qed
qed

lemma scheduleNext_mset:
  "scheduleNext h s = (s', started) \<Longrightarrow>
   mset (map unassigned (taskQueue s')) + mset (map (\<lambda>x. unassigned (snd x)) started)
     = mset (map unassigned (taskQueue s))
   \<and> taskResults s' = taskResults s"
proof (cases "taskQueue s = []")
  case True
  assume "scheduleNext h s = (s', started)"
  with True show ?thesis by (auto simp: scheduleNext_def)
next
  case False
  let ?s1 = "s\<lparr>taskQueue := sort_key (\<lambda>task. - priority task) (taskQueue s)\<rparr>"
  assume "scheduleNext h s = (s', started)"
  with False have "schedule_loop h ?s1 (taskQueue ?s1) = (s', started)"
    by (simp add: scheduleNext_def Let_def)
  from schedule_loop_mset [OF _ this] show ?thesis by simp
qed

text \<open>
  The decrement is exact as long as the result is below \<open>2^53\<close> in magnitude; at \<open>2^54\<close>
  the result \<open>2^54 - 1\<close> is not representable and rounds back to \<open>2^54\<close>.
\<close>

lemma spacing_small: "a < 9007199254740992 \<Longrightarrow> spacing a = 1"
  by simp

lemma js_round_exact: "\<bar>x\<bar> < 9007199254740992 \<Longrightarrow> js_round x = x"
proof -
  assume "\<bar>x\<bar> < 9007199254740992"
  then have "nat \<bar>x\<bar> < 9007199254740992" by simp
  then have "spacing (nat \<bar>x\<bar>) = 1" by (rule spacing_small)
  then show ?thesis by (simp add: js_round_def Let_def sgn_if del: spacing.simps)
qed

lemma js_decrement_exact: "\<bar>p - 1\<bar> < 9007199254740992 \<Longrightarrow> js_decrement p = p - 1"
  by (simp add: js_decrement_def js_round_exact)

lemma js_decrement_rounds: "js_decrement 18014398509481984 = 18014398509481984"
proof -
  have sp: "spacing 18014398509481983 = 2" by simp
  have n: "nat \<bar>18014398509481983 :: int\<bar> = 18014398509481983" by simp
  have "js_round 18014398509481983 = 18014398509481984"
    unfolding js_round_def Let_def n sp by simp
  then show ?thesis by (simp add: js_decrement_def)
qed

lemmas retry_scenario_defs =
  retry_task_def retry_scheduler_def no_capabilities_def createTask_def createScheduler_def
  TaskScheduler_constructor_def or_default_def registerNode_def getInfo_def createComputeNode_def
  ComputeNode_constructor_def submitTask_def scheduleNext_def selectNode_def selectLeastLoaded_def
  canAcceptTask_def assignTask_def updateLoad_def scheduler_executeTask_def requeue_def getLoad_def
  js_decrement_exact getResult_def Let_def eval_nat_numeral

text \<open>
  C3. With \<open>maxRetries\<close> 3 and one node, a task submitted with priority 5 times out once:
  the retry branch lowers the priority of the task, and the task is started again with
  priority 4, not with the priority 5 it was submitted with.
\<close>

theorem retry_changes_priority:
  "priority retry_task = 5
   \<and> snd (fst (submitTask no_capabilities retry_scheduler retry_task))
       = [(''node1'', retry_task\<lparr>assignedTo := Some ''node1''\<rparr>)]
   \<and> snd (fail_attempts 1 no_capabilities (fst (submitTask no_capabilities retry_scheduler retry_task)))
       = [(''node1'', retry_task\<lparr>priority := 4, assignedTo := Some ''node1''\<rparr>)]"
  by (simp add: retry_scenario_defs)

text \<open>
  C1. With \<open>maxRetries\<close> 3 and one node, a task of priority 5 whose every attempt times out
  has no result after 4 failures and is running a fifth attempt; it still has no result
  after 8 failures, and the result \<open>MaxRetriesExceeded\<close> is recorded at the ninth.
\<close>

theorem retry_bound_depends_on_priority:
  "getResult (fst (fail_attempts 4 no_capabilities (fst (submitTask no_capabilities retry_scheduler retry_task)))) ''task1'' = None
   \<and> snd (fail_attempts 4 no_capabilities (fst (submitTask no_capabilities retry_scheduler retry_task)))
       = [(''node1'', retry_task\<lparr>priority := 1, assignedTo := Some ''node1''\<rparr>)]
   \<and> getResult (fst (fail_attempts 8 no_capabilities (fst (submitTask no_capabilities retry_scheduler retry_task)))) ''task1'' = None
   \<and> getResult (fst (fail_attempts 9 no_capabilities (fst (submitTask no_capabilities retry_scheduler retry_task)))) ''task1''
       = Some MaxRetriesExceeded"
  by (simp add: retry_scenario_defs)

text \<open>
  The failure branch in general: it records the terminal result exactly when the priority
  has come down to \<open>- maxRetries\<close>, whatever the number of failures so far.
\<close>

lemma failure_is_terminal_iff:
  "getResult (fst (scheduler_executeTask h s task (Inl e))) (task_id task) = Some MaxRetriesExceeded
   \<longleftrightarrow> priority task \<le> - maxRetries (config s)
       \<or> getResult s (task_id task) = Some MaxRetriesExceeded"
proof (cases "priority task > - maxRetries (config s)")
  case True
  obtain s' started where run: "scheduler_executeTask h s task (Inl e) = (s', started)"
    by (cases "scheduler_executeTask h s task (Inl e)")
  then have "scheduleNext h (requeue s task) = (s', started)"
    using True by (simp add: scheduler_executeTask_def)
  from scheduleNext_mset [OF this] have "taskResults s' = taskResults s"
    by (simp add: requeue_def)
  with True run show ?thesis by (simp add: getResult_def)
next
  case False
  then show ?thesis
    by (simp add: scheduler_executeTask_def getResult_def update_conv')
qed

text \<open>With the default priority 0 the same task is finished at the fourth failure.\<close>

lemma retry_bound_at_default_priority:
  "getResult (fst (fail_attempts 3 no_capabilities
      (fst (submitTask no_capabilities retry_scheduler (retry_task\<lparr>priority := 0\<rparr>))))) ''task1'' = None
   \<and> getResult (fst (fail_attempts 4 no_capabilities
      (fst (submitTask no_capabilities retry_scheduler (retry_task\<lparr>priority := 0\<rparr>))))) ''task1''
       = Some MaxRetriesExceeded"
  by (simp add: retry_scenario_defs)








end
